theory Spec2Isabelle
  imports Complex_Main
begin

section \<open>Data model\<close>

text \<open>
  A vertex array is a numpy array of shape (n, 3); it is modelled as a list of triples.
  Coordinates are real numbers: the model is the exact arithmetic that the binary64 code
  approximates. Where a statement depends on the rounding, the computation is given
  again on binary64 values, in the last section of the definitions of the program. A
  face array is a list of index triples; indices and segment counts are Python integers,
  hence \<open>int\<close>.
\<close>

type_synonym vec3 = "real \<times> real \<times> real"
type_synonym face = "int \<times> int \<times> int"
type_synonym mesh = "vec3 list \<times> face list"

datatype error =
    KeyError string
  | ValueError string
  | TypeError string
  | ZeroDivisionError

text \<open>\<open>range(n)\<close> of Python: the integers from 0 up to n - 1, empty when n is not positive.\<close>

definition py_range :: "int \<Rightarrow> int list" where
  "py_range n = [0..n - 1]"

text \<open>A \<open>for\<close> loop whose body may raise: the first error ends the loop.\<close>

fun for_loop :: "'a list \<Rightarrow> ('a \<Rightarrow> 's \<Rightarrow> error + 's) \<Rightarrow> 's \<Rightarrow> error + 's" where
  "for_loop [] body s = Inr s"
| "for_loop (x # xs) body s =
     (case body x s of Inl e \<Rightarrow> Inl e | Inr s' \<Rightarrow> for_loop xs body s')"

text \<open>Python's true division \<open>a / b\<close>.\<close>

definition true_div :: "real \<Rightarrow> real \<Rightarrow> error + real" where
  "true_div a b = (if b = 0 then Inl ZeroDivisionError else Inr (a / b))"

text \<open>
  \<open>np.linspace(start, stop, num, endpoint=False)\<close>: \<open>num\<close> samples with step
  \<open>(stop - start) / num\<close>; a negative \<open>num\<close> raises ValueError.
\<close>

definition linspace :: "real \<Rightarrow> real \<Rightarrow> int \<Rightarrow> error + real list" where
  "linspace start stop num =
     (if num < 0 then Inl (ValueError ''Number of samples must be non-negative'')
      else Inr (map (\<lambda>i. start + real_of_int i * ((stop - start) / real_of_int num))
                  (py_range num)))"

text \<open>\<open>np.full(n, v)\<close> and \<open>np.column_stack\<close> of three columns.\<close>

definition full :: "int \<Rightarrow> real \<Rightarrow> real list" where
  "full n v = replicate (nat n) v"

definition column_stack :: "real list \<Rightarrow> real list \<Rightarrow> real list \<Rightarrow> vec3 list" where
  "column_stack xs ys zs = map (\<lambda>(x, y, z). (x, y, z)) (zip xs (zip ys zs))"

section \<open>Primitive generation functions\<close>

definition create_cube_mesh :: "vec3 \<Rightarrow> vec3 \<Rightarrow> mesh" where
  "create_cube_mesh center size' =
     (case center of (x, y, z) \<Rightarrow>
      case size' of (size0, size1, size2) \<Rightarrow>
        let sx = size0 / 2; sy = size1 / 2; sz = size2 / 2;
            v = [(x - sx, y - sy, z - sz),
                 (x + sx, y - sy, z - sz),
                 (x + sx, y + sy, z - sz),
                 (x - sx, y + sy, z - sz),
                 (x - sx, y - sy, z + sz),
                 (x + sx, y - sy, z + sz),
                 (x + sx, y + sy, z + sz),
                 (x - sx, y + sy, z + sz)];
            faces = [(0, 1, 2), (0, 2, 3),
                     (4, 5, 6), (4, 6, 7),
                     (0, 1, 5), (0, 5, 4),
                     (3, 2, 6), (3, 6, 7),
                     (0, 3, 7), (0, 7, 4),
                     (1, 2, 6), (1, 6, 5)]
        in (v, faces))"

definition create_cylinder_mesh :: "vec3 \<Rightarrow> real \<Rightarrow> real \<Rightarrow> int \<Rightarrow> error + mesh" where
  "create_cylinder_mesh center radius height segments =
     (case center of (c0, c1, c2) \<Rightarrow>
      (case linspace 0 (2 * pi) segments of
        Inl e \<Rightarrow> Inl e
      | Inr theta \<Rightarrow>
        let x_circle = map (\<lambda>t. radius * cos t) theta;
            y_circle = map (\<lambda>t. radius * sin t) theta;
            v_bottom = column_stack (map (\<lambda>a. a + c0) x_circle) (map (\<lambda>a. a + c1) y_circle)
                         (full segments (c2 - height / 2));
            v_top = column_stack (map (\<lambda>a. a + c0) x_circle) (map (\<lambda>a. a + c1) y_circle)
                      (full segments (c2 + height / 2));
            v_center_bottom = [(c0, c1, c2 - height / 2)];
            v_center_top = [(c0, c1, c2 + height / 2)];
            vertices = v_bottom @ v_top @ v_center_bottom @ v_center_top;
            idx_center_bottom = 2 * segments;
            idx_center_top = 2 * segments + 1;
            faces = [];
            faces = fold (\<lambda>i faces. faces @ [(i, (i + 1) mod segments, idx_center_bottom)])
                      (py_range segments) faces;
            faces = fold (\<lambda>i faces.
                        faces @ [(segments + i, segments + (i + 1) mod segments, idx_center_top)])
                      (py_range segments) faces;
            faces = fold (\<lambda>i faces.
                        let v0 = i;
                            v1 = (i + 1) mod segments;
                            v2 = segments + (i + 1) mod segments;
                            v3 = segments + i
                        in faces @ [(v0, v1, v2)] @ [(v0, v2, v3)])
                      (py_range segments) faces
        in Inr (vertices, faces)))"

definition create_cone_mesh :: "vec3 \<Rightarrow> real \<Rightarrow> real \<Rightarrow> int \<Rightarrow> error + mesh" where
  "create_cone_mesh center radius height segments =
     (case center of (c0, c1, c2) \<Rightarrow>
      (case linspace 0 (2 * pi) segments of
        Inl e \<Rightarrow> Inl e
      | Inr theta \<Rightarrow>
        let x_circle = map (\<lambda>t. radius * cos t) theta;
            y_circle = map (\<lambda>t. radius * sin t) theta;
            v_base = column_stack (map (\<lambda>a. a + c0) x_circle) (map (\<lambda>a. a + c1) y_circle)
                       (full segments c2);
            v_apex = [(c0, c1, c2 + height)];
            v_center_base = [(c0, c1, c2)];
            vertices = v_base @ v_apex @ v_center_base;
            idx_apex = segments;
            idx_center_base = segments + 1;
            faces = [];
            faces = fold (\<lambda>i faces.
                        let v0 = i; v1 = (i + 1) mod segments
                        in faces @ [(v0, v1, idx_apex)])
                      (py_range segments) faces;
            faces = fold (\<lambda>i faces. faces @ [(i, (i + 1) mod segments, idx_center_base)])
                      (py_range segments) faces
        in Inr (vertices, faces)))"

text \<open>
  The torus divides by \<open>major_segments\<close> and \<open>minor_segments\<close> only inside the loops over
  their ranges, which are empty when the divisor is not positive; the divisions are
  written with \<open>true_div\<close> all the same.
\<close>

definition create_torus_mesh ::
  "vec3 \<Rightarrow> real \<Rightarrow> real \<Rightarrow> int \<Rightarrow> int \<Rightarrow> error + mesh" where
  "create_torus_mesh center major_radius minor_radius major_segments minor_segments =
     (case center of (c0, c1, c2) \<Rightarrow>
      (case for_loop (py_range major_segments)
             (\<lambda>i vertices.
                case true_div (2 * pi * real_of_int i) (real_of_int major_segments) of
                  Inl e \<Rightarrow> Inl e
                | Inr phi \<Rightarrow>
                  for_loop (py_range minor_segments)
                    (\<lambda>j vertices.
                       (case true_div (2 * pi * real_of_int j) (real_of_int minor_segments) of
                          Inl e \<Rightarrow> Inl e
                        | Inr theta \<Rightarrow>
                          let x = (major_radius + minor_radius * cos theta) * cos phi + c0;
                              y = (major_radius + minor_radius * cos theta) * sin phi + c1;
                              z = minor_radius * sin theta + c2
                          in Inr (vertices @ [(x, y, z)])))
                    vertices)
             [] of
        Inl e \<Rightarrow> Inl e
      | Inr vertices \<Rightarrow>
        let faces = fold (\<lambda>i faces.
                      fold (\<lambda>j faces.
                        let v0 = i * minor_segments + j;
                            v1 = i * minor_segments + (j + 1) mod minor_segments;
                            v2 = (i + 1) mod major_segments * minor_segments
                                   + (j + 1) mod minor_segments;
                            v3 = (i + 1) mod major_segments * minor_segments + j
                        in faces @ [(v0, v1, v2)] @ [(v0, v2, v3)])
                      (py_range minor_segments) faces)
                    (py_range major_segments) []
        in Inr (vertices, faces)))"

text \<open>
  The sphere divides by \<open>segments\<close> in the first iteration of a loop over
  \<open>range(segments + 1)\<close>, so \<open>segments = 0\<close> raises ZeroDivisionError.
\<close>

definition create_sphere_mesh :: "vec3 \<Rightarrow> real \<Rightarrow> int \<Rightarrow> error + mesh" where
  "create_sphere_mesh center radius segments =
     (case center of (c0, c1, c2) \<Rightarrow>
      (case for_loop (py_range (segments + 1))
             (\<lambda>i vertices.
                case true_div (real_of_int i) (real_of_int segments) of
                  Inl e \<Rightarrow> Inl e
                | Inr q \<Rightarrow>
                  let lat = pi * (- 0.5 + q) in
                  for_loop (py_range (segments + 1))
                    (\<lambda>j vertices.
                       (case true_div (2 * pi * real_of_int j) (real_of_int segments) of
                          Inl e \<Rightarrow> Inl e
                        | Inr lon \<Rightarrow>
                          let x = radius * cos lat * cos lon + c0;
                              y = radius * cos lat * sin lon + c1;
                              z = radius * sin lat + c2
                          in Inr (vertices @ [(x, y, z)])))
                    vertices)
             [] of
        Inl e \<Rightarrow> Inl e
      | Inr vertices \<Rightarrow>
        let faces = fold (\<lambda>i faces.
                      fold (\<lambda>j faces.
                        let v0 = i * (segments + 1) + j;
                            v1 = v0 + 1;
                            v2 = (i + 1) * (segments + 1) + j + 1;
                            v3 = (i + 1) * (segments + 1) + j
                        in faces @ [(v0, v1, v2)] @ [(v0, v2, v3)])
                      (py_range segments) faces)
                    (py_range segments) []
        in Inr (vertices, faces)))"

section \<open>Transformation functions\<close>

text \<open>A 3 by 3 matrix is the triple of its rows.\<close>

type_synonym mat3 = "vec3 \<times> vec3 \<times> vec3"

definition transpose3 :: "mat3 \<Rightarrow> mat3" where
  "transpose3 m =
     (case m of ((a00, a01, a02), (a10, a11, a12), (a20, a21, a22)) \<Rightarrow>
        ((a00, a10, a20), (a01, a11, a21), (a02, a12, a22)))"

text \<open>\<open>vertices @ m\<close>: every vertex, as a row vector, times the matrix.\<close>

definition matmul :: "vec3 list \<Rightarrow> mat3 \<Rightarrow> vec3 list" where
  "matmul vertices m =
     (case m of ((b00, b01, b02), (b10, b11, b12), (b20, b21, b22)) \<Rightarrow>
        map (\<lambda>(x, y, z). (x * b00 + y * b10 + z * b20,
                          x * b01 + y * b11 + z * b21,
                          x * b02 + y * b12 + z * b22)) vertices)"

definition deg2rad :: "real \<Rightarrow> real" where
  "deg2rad angle_deg = angle_deg * (pi / 180)"

definition translate :: "vec3 list \<Rightarrow> real \<Rightarrow> real \<Rightarrow> real \<Rightarrow> vec3 list" where
  "translate vertices tx ty tz = map (\<lambda>(x, y, z). (x + tx, y + ty, z + tz)) vertices"

definition rotate_x :: "vec3 list \<Rightarrow> real \<Rightarrow> vec3 list" where
  "rotate_x vertices angle_deg =
     (let angle_rad = deg2rad angle_deg;
          Rx = ((1, 0, 0),
                (0, cos angle_rad, - sin angle_rad),
                (0, sin angle_rad, cos angle_rad))
      in matmul vertices (transpose3 Rx))"

definition rotate_y :: "vec3 list \<Rightarrow> real \<Rightarrow> vec3 list" where
  "rotate_y vertices angle_deg =
     (let angle_rad = deg2rad angle_deg;
          Ry = ((cos angle_rad, 0, sin angle_rad),
                (0, 1, 0),
                (- sin angle_rad, 0, cos angle_rad))
      in matmul vertices (transpose3 Ry))"

definition rotate_z :: "vec3 list \<Rightarrow> real \<Rightarrow> vec3 list" where
  "rotate_z vertices angle_deg =
     (let angle_rad = deg2rad angle_deg;
          Rz = ((cos angle_rad, - sin angle_rad, 0),
                (sin angle_rad, cos angle_rad, 0),
                (0, 0, 1))
      in matmul vertices (transpose3 Rz))"

definition scale :: "vec3 list \<Rightarrow> real \<Rightarrow> real \<Rightarrow> real \<Rightarrow> vec3 list" where
  "scale vertices sx sy sz = map (\<lambda>(x, y, z). (x * sx, y * sy, z * sz)) vertices"

section \<open>Scene graph\<close>

text \<open>
  A transformation entry is a dictionary read at the keys \<open>type\<close> and \<open>params\<close>. A
  scene node is a dictionary whose keys differ from node to node (a group has \<open>type\<close>
  and \<open>children\<close> only, a cube has no radius). Every key of an entry and of a node is
  optional, and reading an absent key raises KeyError.
\<close>

record transform_info =
  t_type :: "string option"
  t_params :: "real list option"

datatype scene_node = Scene_Node
  (name: "string option")
  (node_type: "string option")
  (shape: "string option")
  (color: "string option")
  (initial_size: "vec3 option")
  (initial_radius: "real option")
  (initial_height: "real option")
  (initial_major_radius: "real option")
  (initial_minor_radius: "real option")
  (transformations: "transform_info list option")
  (children: "scene_node list option")

text \<open>
  The constant \<open>scene_graph\<close>: its only entry, \<open>rocket\<close>, is a group of thirteen
  primitive nodes. A group node has the keys \<open>type\<close> and \<open>children\<close> only.
\<close>

definition group_node :: "scene_node list \<Rightarrow> scene_node" where
  "group_node cs =
     Scene_Node None (Some ''group'') None None None None None None None None (Some cs)"

definition body :: scene_node where
  "body = Scene_Node (Some ''body'') (Some ''primitive'') (Some ''cylinder'') (Some ''silver'')
            None (Some 1) (Some 6) None None
            (Some [\<lparr>t_type = Some ''translate'', t_params = Some [0, 0, 3]\<rparr>]) None"

definition nose_cone :: scene_node where
  "nose_cone = Scene_Node (Some ''nose_cone'') (Some ''primitive'') (Some ''cone'') (Some ''red'')
                 None (Some 1) (Some 3) None None
                 (Some [\<lparr>t_type = Some ''translate'', t_params = Some [0, 0, 6]\<rparr>]) None"

definition fin_1 :: scene_node where
  "fin_1 = Scene_Node (Some ''fin_1'') (Some ''primitive'') (Some ''cube'') (Some ''blue'')
             (Some (0.2, 2.5, 2.0)) None None None None
             (Some [\<lparr>t_type = Some ''translate'', t_params = Some [0, - 1.0, 1.0]\<rparr>,
                    \<lparr>t_type = Some ''rotate_z'', t_params = Some [0]\<rparr>,
                    \<lparr>t_type = Some ''rotate_x'', t_params = Some [10]\<rparr>]) None"

definition fin_2 :: scene_node where
  "fin_2 = Scene_Node (Some ''fin_2'') (Some ''primitive'') (Some ''cube'') (Some ''blue'')
             (Some (0.2, 2.5, 2.0)) None None None None
             (Some [\<lparr>t_type = Some ''translate'', t_params = Some [0, - 1.0, 1.0]\<rparr>,
                    \<lparr>t_type = Some ''rotate_z'', t_params = Some [120]\<rparr>,
                    \<lparr>t_type = Some ''rotate_x'', t_params = Some [10]\<rparr>]) None"

definition fin_3 :: scene_node where
  "fin_3 = Scene_Node (Some ''fin_3'') (Some ''primitive'') (Some ''cube'') (Some ''blue'')
             (Some (0.2, 2.5, 2.0)) None None None None
             (Some [\<lparr>t_type = Some ''translate'', t_params = Some [0, - 1.0, 1.0]\<rparr>,
                    \<lparr>t_type = Some ''rotate_z'', t_params = Some [240]\<rparr>,
                    \<lparr>t_type = Some ''rotate_x'', t_params = Some [10]\<rparr>]) None"

definition window_1 :: scene_node where
  "window_1 = Scene_Node (Some ''window_1'') (Some ''primitive'') (Some ''sphere'')
                (Some ''lightblue'') None (Some 0.3) None None None
                (Some [\<lparr>t_type = Some ''translate'', t_params = Some [0.8, 0, 5.0]\<rparr>]) None"

definition window_2 :: scene_node where
  "window_2 = Scene_Node (Some ''window_2'') (Some ''primitive'') (Some ''sphere'')
                (Some ''lightblue'') None (Some 0.3) None None None
                (Some [\<lparr>t_type = Some ''translate'',
                        t_params = Some [0.8 * cos (deg2rad 90), 0.8 * sin (deg2rad 90), 4.0]\<rparr>,
                       \<lparr>t_type = Some ''rotate_z'', t_params = Some [90]\<rparr>]) None"

definition window_3 :: scene_node where
  "window_3 = Scene_Node (Some ''window_3'') (Some ''primitive'') (Some ''sphere'')
                (Some ''lightblue'') None (Some 0.3) None None None
                (Some [\<lparr>t_type = Some ''translate'',
                        t_params = Some [0.8 * cos (deg2rad 180), 0.8 * sin (deg2rad 180), 5.0]\<rparr>,
                       \<lparr>t_type = Some ''rotate_z'', t_params = Some [180]\<rparr>]) None"

definition exhaust :: scene_node where
  "exhaust = Scene_Node (Some ''exhaust'') (Some ''primitive'') (Some ''cylinder'')
               (Some ''darkgrey'') None (Some 0.7) (Some 1.0) None None
               (Some [\<lparr>t_type = Some ''translate'', t_params = Some [0, 0, - 0.5]\<rparr>]) None"

definition nozzle_1 :: scene_node where
  "nozzle_1 = Scene_Node (Some ''nozzle_1'') (Some ''primitive'') (Some ''cone'')
                (Some ''orange'') None (Some 0.3) (Some 0.8) None None
                (Some [\<lparr>t_type = Some ''translate'', t_params = Some [0.3, 0.3, - 0.9]\<rparr>,
                       \<lparr>t_type = Some ''rotate_x'', t_params = Some [180]\<rparr>]) None"

definition nozzle_2 :: scene_node where
  "nozzle_2 = Scene_Node (Some ''nozzle_2'') (Some ''primitive'') (Some ''cone'')
                (Some ''orange'') None (Some 0.3) (Some 0.8) None None
                (Some [\<lparr>t_type = Some ''translate'', t_params = Some [- 0.3, - 0.3, - 0.9]\<rparr>,
                       \<lparr>t_type = Some ''rotate_x'', t_params = Some [180]\<rparr>]) None"

definition ring_top :: scene_node where
  "ring_top = Scene_Node (Some ''ring_top'') (Some ''primitive'') (Some ''torus'')
                (Some ''gold'') None None None (Some 1.1) (Some 0.05)
                (Some [\<lparr>t_type = Some ''translate'', t_params = Some [0, 0, 5.5]\<rparr>]) None"

definition ring_bottom :: scene_node where
  "ring_bottom = Scene_Node (Some ''ring_bottom'') (Some ''primitive'') (Some ''torus'')
                   (Some ''gold'') None None None (Some 1.1) (Some 0.05)
                   (Some [\<lparr>t_type = Some ''translate'', t_params = Some [0, 0, 1.5]\<rparr>]) None"

definition rocket :: scene_node where
  "rocket = group_node [body, nose_cone, fin_1, fin_2, fin_3, window_1, window_2, window_3,
                   exhaust, nozzle_1, nozzle_2, ring_top, ring_bottom]"

text \<open>The arguments of \<open>go.Mesh3d\<close> that \<open>build_scene\<close> passes.\<close>

record mesh3d =
  mesh_x :: "real list"
  mesh_y :: "real list"
  mesh_z :: "real list"
  mesh_i :: "int list"
  mesh_j :: "int list"
  mesh_k :: "int list"
  mesh_color :: string
  mesh_opacity :: real
  mesh_flatshading :: bool

section \<open>Scene traversal\<close>

definition lookup :: "string \<Rightarrow> 'a option \<Rightarrow> error + 'a" where
  "lookup key field = (case field of None \<Rightarrow> Inl (KeyError key) | Some v \<Rightarrow> Inr v)"

text \<open>
  The dispatch on the shape: each generator is called with its default center and
  segment counts, and with the parameters read from the node.
\<close>

definition primitive_mesh :: "scene_node \<Rightarrow> string \<Rightarrow> error + mesh" where
  "primitive_mesh scene_graph_node shape' =
     (if shape' = ''cube'' then
        (case lookup ''initial_size'' (initial_size scene_graph_node) of
           Inl e \<Rightarrow> Inl e
         | Inr sz \<Rightarrow> Inr (create_cube_mesh (0, 0, 0) sz))
      else if shape' = ''cylinder'' then
        (case lookup ''initial_radius'' (initial_radius scene_graph_node) of
           Inl e \<Rightarrow> Inl e
         | Inr r \<Rightarrow>
           (case lookup ''initial_height'' (initial_height scene_graph_node) of
              Inl e \<Rightarrow> Inl e
            | Inr h \<Rightarrow> create_cylinder_mesh (0, 0, 0) r h 20))
      else if shape' = ''cone'' then
        (case lookup ''initial_radius'' (initial_radius scene_graph_node) of
           Inl e \<Rightarrow> Inl e
         | Inr r \<Rightarrow>
           (case lookup ''initial_height'' (initial_height scene_graph_node) of
              Inl e \<Rightarrow> Inl e
            | Inr h \<Rightarrow> create_cone_mesh (0, 0, 0) r h 20))
      else if shape' = ''sphere'' then
        (case lookup ''initial_radius'' (initial_radius scene_graph_node) of
           Inl e \<Rightarrow> Inl e
         | Inr r \<Rightarrow> create_sphere_mesh (0, 0, 0) r 20)
      else if shape' = ''torus'' then
        (case lookup ''initial_major_radius'' (initial_major_radius scene_graph_node) of
           Inl e \<Rightarrow> Inl e
         | Inr major_radius \<Rightarrow>
           (case lookup ''initial_minor_radius'' (initial_minor_radius scene_graph_node) of
              Inl e \<Rightarrow> Inl e
            | Inr minor_radius \<Rightarrow>
                create_torus_mesh (0, 0, 0) major_radius minor_radius 30 15))
      else Inl (ValueError (''Unknown primitive shape: '' @ shape')))"

text \<open>
  One iteration of the loop over the transformations: the new vertices and the lines
  printed. Both keys of the entry are read before the dispatch on the type.
  \<open>f(vertices, *t_params)\<close> raises TypeError when the number of parameters is not the one
  \<open>f\<close> takes.
\<close>

definition apply_transformation ::
  "transform_info \<Rightarrow> vec3 list \<Rightarrow> error + (vec3 list \<times> string list)" where
  "apply_transformation transform_info vertices =
     (case lookup ''type'' (t_type transform_info) of
        Inl e \<Rightarrow> Inl e
      | Inr type' \<Rightarrow>
       (case lookup ''params'' (t_params transform_info) of
          Inl e \<Rightarrow> Inl e
        | Inr params \<Rightarrow>
          if type' = ''translate'' then
            (case params of
               [tx, ty, tz] \<Rightarrow> Inr (translate vertices tx ty tz, [])
             | _ \<Rightarrow> Inl (TypeError ''translate''))
          else if type' = ''rotate_x'' then
            (case params of
               [angle_deg] \<Rightarrow> Inr (rotate_x vertices angle_deg, [])
             | _ \<Rightarrow> Inl (TypeError ''rotate_x''))
          else if type' = ''rotate_y'' then
            (case params of
               [angle_deg] \<Rightarrow> Inr (rotate_y vertices angle_deg, [])
             | _ \<Rightarrow> Inl (TypeError ''rotate_y''))
          else if type' = ''rotate_z'' then
            (case params of
               [angle_deg] \<Rightarrow> Inr (rotate_z vertices angle_deg, [])
             | _ \<Rightarrow> Inl (TypeError ''rotate_z''))
          else if type' = ''scale'' then
            (case params of
               [sx, sy, sz] \<Rightarrow> Inr (scale vertices sx sy sz, [])
             | _ \<Rightarrow> Inl (TypeError ''scale''))
          else Inr (vertices, [''Warning: Unknown transformation type: '' @ type'])))"

text \<open>
  The loop over the transformations. The result is the lines printed so far, and the
  error raised or the final vertices.
\<close>

fun apply_transformations ::
  "transform_info list \<Rightarrow> vec3 list \<Rightarrow> string list \<Rightarrow> string list \<times> (error + vec3 list)" where
  "apply_transformations [] vertices out = (out, Inr vertices)"
| "apply_transformations (transform_info # rest) vertices out =
     (case apply_transformation transform_info vertices of
        Inl e \<Rightarrow> (out, Inl e)
      | Inr (vertices', printed) \<Rightarrow> apply_transformations rest vertices' (out @ printed))"

text \<open>
  The \<open>go.Mesh3d\<close> call of \<open>build_scene\<close>. Its keyword arguments are the columns of the
  two arrays, the color, the opacity and the shading flag.
\<close>

definition mesh3d_arguments :: "vec3 list \<Rightarrow> face list \<Rightarrow> string \<Rightarrow> mesh3d" where
  "mesh3d_arguments vertices faces color' =
     \<lparr>mesh_x = map (\<lambda>(x, y, z). x) vertices,
      mesh_y = map (\<lambda>(x, y, z). y) vertices,
      mesh_z = map (\<lambda>(x, y, z). z) vertices,
      mesh_i = map (\<lambda>(i, j, k). i) faces,
      mesh_j = map (\<lambda>(i, j, k). j) faces,
      mesh_k = map (\<lambda>(i, j, k). k) faces,
      mesh_color = color',
      mesh_opacity = 1.0,
      mesh_flatshading = True\<rparr>"

text \<open>
  \<open>go.Mesh3d\<close> belongs to the plotting library, which checks the color and raises
  ValueError for a string that is not a color. Which strings are colors is the library's
  matter, so it is the parameter \<open>valid_color\<close> of the traversal.
\<close>

definition mesh3d_trace ::
  "(string \<Rightarrow> bool) \<Rightarrow> vec3 list \<Rightarrow> face list \<Rightarrow> string \<Rightarrow> error + mesh3d" where
  "mesh3d_trace valid_color vertices faces color' =
     (if valid_color color' then Inr (mesh3d_arguments vertices faces color')
      else Inl (ValueError (''Invalid value for the color property of mesh3d: '' @ color')))"

text \<open>The branch of \<open>build_scene\<close> for a primitive node.\<close>

definition build_primitive ::
  "(string \<Rightarrow> bool) \<Rightarrow> scene_node \<Rightarrow> string list \<times> (error + mesh3d list)" where
  "build_primitive valid_color scene_graph_node =
     (let traces = [] in
      case lookup ''shape'' (shape scene_graph_node) of
        Inl e \<Rightarrow> ([], Inl e)
      | Inr shape' \<Rightarrow>
       (case lookup ''color'' (color scene_graph_node) of
          Inl e \<Rightarrow> ([], Inl e)
        | Inr color' \<Rightarrow>
         (case primitive_mesh scene_graph_node shape' of
            Inl e \<Rightarrow> ([], Inl e)
          | Inr (vertices, faces) \<Rightarrow>
           (case lookup ''transformations'' (transformations scene_graph_node) of
              Inl e \<Rightarrow> ([], Inl e)
            | Inr ts \<Rightarrow>
             (case apply_transformations ts vertices [] of
                (out, Inl e) \<Rightarrow> (out, Inl e)
              | (out, Inr vertices) \<Rightarrow>
               (case mesh3d_trace valid_color vertices faces color' of
                  Inl e \<Rightarrow> (out, Inl e)
                | Inr trace \<Rightarrow> (out, Inr (traces @ [trace]))))))))"

text \<open>
  \<open>build_scene\<close>, with the loop over the children of a group as \<open>build_children\<close>, whose
  last argument is \<open>traces\<close>. The result is the lines printed, and the error raised or
  the list of traces returned.
\<close>

fun build_scene ::
    "(string \<Rightarrow> bool) \<Rightarrow> scene_node \<Rightarrow> string list \<times> (error + mesh3d list)"
  and build_children ::
    "(string \<Rightarrow> bool) \<Rightarrow> scene_node list \<Rightarrow> mesh3d list
       \<Rightarrow> string list \<times> (error + mesh3d list)" where
  "build_scene valid_color (Scene_Node nm ty sh col isz irad ihei imaj imin trs chs) =
     (case lookup ''type'' ty of
        Inl e \<Rightarrow> ([], Inl e)
      | Inr t \<Rightarrow>
        if t = ''primitive'' then
          build_primitive valid_color
            (Scene_Node nm ty sh col isz irad ihei imaj imin trs chs)
        else if t = ''group'' then
          (case chs of
             None \<Rightarrow> ([], Inl (KeyError ''children''))
           | Some cs \<Rightarrow> build_children valid_color cs [])
        else ([], Inr []))"
| "build_children valid_color [] traces = ([], Inr traces)"
| "build_children valid_color (child_node # rest) traces =
     (case build_scene valid_color child_node of
        (out, Inl e) \<Rightarrow> (out, Inl e)
      | (out, Inr child_traces) \<Rightarrow>
        (case build_children valid_color rest (traces @ child_traces) of
           (out', result) \<Rightarrow> (out @ out', result)))"

section \<open>The cube and the translation in binary64\<close>











section \<open>Properties stated about meshes\<close>

text \<open>Every index of every face is a position of the vertex array.\<close>

definition faces_in_range :: "mesh \<Rightarrow> bool" where
  "faces_in_range m =
     (case m of (vertices, faces) \<Rightarrow>
        list_all (\<lambda>(a, b, c). 0 \<le> a \<and> a < int (length vertices)
                            \<and> 0 \<le> b \<and> b < int (length vertices)
                            \<and> 0 \<le> c \<and> c < int (length vertices)) faces)"


text \<open>
  A node of a shape that \<open>build_scene\<close> does not know: the nose cone of the rocket with
  the shape \<open>pyramid\<close>.
\<close>

definition pyramid :: scene_node where
  "pyramid = Scene_Node (Some ''tip'') (Some ''primitive'') (Some ''pyramid'') (Some ''red'')
               None (Some 1) (Some 3) None None
               (Some [\<lparr>t_type = Some ''translate'', t_params = Some [0, 0, 6]\<rparr>]) None"

text \<open>
  The colors of the scene graph, all of them color names of CSS, which the plotting
  library accepts. The examples below run the traversal with this check of the color.
\<close>

definition rocket_color :: "string \<Rightarrow> bool" where
  "rocket_color c =
     (c \<in> set [''silver'', ''red'', ''blue'', ''lightblue'', ''darkgrey'', ''orange'',
                ''gold''])"

section \<open>Closed forms of the generators\<close>

text \<open>
  The loops of the generators, written as list comprehensions. The lemmas
  \<open>cylinder_closed\<close>, \<open>cone_closed\<close>, \<open>torus_closed\<close> and \<open>sphere_closed\<close> below prove
  that the generators compute them.
\<close>

definition ring_vertex :: "vec3 \<Rightarrow> real \<Rightarrow> int \<Rightarrow> real \<Rightarrow> int \<Rightarrow> vec3" where
  "ring_vertex center radius segments = (\<lambda>z i.
     (case center of (c0, c1, c2) \<Rightarrow>
        (radius * cos (real_of_int i * (2 * pi / real_of_int segments)) + c0,
         radius * sin (real_of_int i * (2 * pi / real_of_int segments)) + c1,
         z)))"

definition cylinder_vertices :: "vec3 \<Rightarrow> real \<Rightarrow> real \<Rightarrow> int \<Rightarrow> vec3 list" where
  "cylinder_vertices center radius height segments =
     (case center of (c0, c1, c2) \<Rightarrow>
        map (ring_vertex center radius segments (c2 - height / 2)) (py_range segments)
        @ map (ring_vertex center radius segments (c2 + height / 2)) (py_range segments)
        @ [(c0, c1, c2 - height / 2), (c0, c1, c2 + height / 2)])"

definition cylinder_faces :: "int \<Rightarrow> face list" where
  "cylinder_faces segments =
     map (\<lambda>i. (i, (i + 1) mod segments, 2 * segments)) (py_range segments)
     @ map (\<lambda>i. (segments + i, segments + (i + 1) mod segments, 2 * segments + 1))
         (py_range segments)
     @ concat (map (\<lambda>i. [(i, (i + 1) mod segments, segments + (i + 1) mod segments),
                          (i, segments + (i + 1) mod segments, segments + i)])
         (py_range segments))"

definition cone_vertices :: "vec3 \<Rightarrow> real \<Rightarrow> real \<Rightarrow> int \<Rightarrow> vec3 list" where
  "cone_vertices center radius height segments =
     (case center of (c0, c1, c2) \<Rightarrow>
        map (ring_vertex center radius segments c2) (py_range segments)
        @ [(c0, c1, c2 + height), (c0, c1, c2)])"

definition cone_faces :: "int \<Rightarrow> face list" where
  "cone_faces segments =
     map (\<lambda>i. (i, (i + 1) mod segments, segments)) (py_range segments)
     @ map (\<lambda>i. (i, (i + 1) mod segments, segments + 1)) (py_range segments)"

definition torus_vertex :: "vec3 \<Rightarrow> real \<Rightarrow> real \<Rightarrow> int \<Rightarrow> int \<Rightarrow> int \<Rightarrow> int \<Rightarrow> vec3" where
  "torus_vertex center major_radius minor_radius major_segments minor_segments = (\<lambda>i j.
     (case center of (c0, c1, c2) \<Rightarrow>
        ((major_radius + minor_radius * cos (2 * pi * real_of_int j / real_of_int minor_segments))
           * cos (2 * pi * real_of_int i / real_of_int major_segments) + c0,
         (major_radius + minor_radius * cos (2 * pi * real_of_int j / real_of_int minor_segments))
           * sin (2 * pi * real_of_int i / real_of_int major_segments) + c1,
         minor_radius * sin (2 * pi * real_of_int j / real_of_int minor_segments) + c2)))"

definition torus_vertices :: "vec3 \<Rightarrow> real \<Rightarrow> real \<Rightarrow> int \<Rightarrow> int \<Rightarrow> vec3 list" where
  "torus_vertices center major_radius minor_radius major_segments minor_segments =
     concat (map (\<lambda>i. map (torus_vertex center major_radius minor_radius
                              major_segments minor_segments i)
                        (py_range minor_segments))
               (py_range major_segments))"

definition torus_faces :: "int \<Rightarrow> int \<Rightarrow> face list" where
  "torus_faces major_segments minor_segments =
     concat (map (\<lambda>i. concat (map (\<lambda>j.
        [(i * minor_segments + j,
          i * minor_segments + (j + 1) mod minor_segments,
          (i + 1) mod major_segments * minor_segments + (j + 1) mod minor_segments),
         (i * minor_segments + j,
          (i + 1) mod major_segments * minor_segments + (j + 1) mod minor_segments,
          (i + 1) mod major_segments * minor_segments + j)])
       (py_range minor_segments))) (py_range major_segments))"

definition sphere_vertex :: "vec3 \<Rightarrow> real \<Rightarrow> int \<Rightarrow> int \<Rightarrow> int \<Rightarrow> vec3" where
  "sphere_vertex center radius segments = (\<lambda>i j.
     (case center of (c0, c1, c2) \<Rightarrow>
        (radius * cos (pi * (- 0.5 + real_of_int i / real_of_int segments))
           * cos (2 * pi * real_of_int j / real_of_int segments) + c0,
         radius * cos (pi * (- 0.5 + real_of_int i / real_of_int segments))
           * sin (2 * pi * real_of_int j / real_of_int segments) + c1,
         radius * sin (pi * (- 0.5 + real_of_int i / real_of_int segments)) + c2)))"

definition sphere_vertices :: "vec3 \<Rightarrow> real \<Rightarrow> int \<Rightarrow> vec3 list" where
  "sphere_vertices center radius segments =
     concat (map (\<lambda>i. map (sphere_vertex center radius segments i) (py_range (segments + 1)))
               (py_range (segments + 1)))"

definition sphere_faces :: "int \<Rightarrow> face list" where
  "sphere_faces segments =
     concat (map (\<lambda>i. concat (map (\<lambda>j.
        [(i * (segments + 1) + j, i * (segments + 1) + j + 1, (i + 1) * (segments + 1) + j + 1),
         (i * (segments + 1) + j, (i + 1) * (segments + 1) + j + 1, (i + 1) * (segments + 1) + j)])
       (py_range segments))) (py_range segments))"

section \<open>Loops and array helpers\<close>

lemma fold_snoc_concat: "fold (\<lambda>i acc. acc @ f i) xs = (\<lambda>acc. acc @ concat (map f xs))"
proof
  fix acc show "fold (\<lambda>i acc. acc @ f i) xs acc = acc @ concat (map f xs)"
    by (induction xs arbitrary: acc) simp_all
qed

lemma for_loop_pure: "for_loop xs (\<lambda>x s. Inr (f x s)) s = Inr (fold f xs s)"
  by (induction xs arbitrary: s) simp_all

lemma length_py_range: "length (py_range n) = nat n"
  by (simp add: py_range_def)

lemma set_py_range: "set (py_range n) = {0..n - 1}"
  by (simp add: py_range_def)

lemma py_range_empty: "n \<le> 0 \<Longrightarrow> py_range n = []"
  by (simp add: py_range_def)

lemma true_div_nonzero: "b \<noteq> 0 \<Longrightarrow> true_div a b = Inr (a / b)"
  by (simp add: true_div_def)

lemma column_stack_maps:
  "length xs = k \<Longrightarrow>
     column_stack (map f xs) (map g xs) (replicate k v) = map (\<lambda>i. (f i, g i, v)) xs"
  by (induction xs arbitrary: k) (auto simp add: column_stack_def)

lemma column_stack_full:
  "column_stack (map f (py_range n)) (map g (py_range n)) (full n v)
     = map (\<lambda>i. (f i, g i, v)) (py_range n)"
  unfolding full_def by (rule column_stack_maps) (rule length_py_range)

section \<open>The generators compute their closed forms\<close>

lemma cylinder_closed:
  assumes "0 \<le> segments"
  shows "create_cylinder_mesh center radius height segments =
    Inr (cylinder_vertices center radius height segments, cylinder_faces segments)"
  using assms
  by (cases center)
     (simp add: create_cylinder_mesh_def linspace_def Let_def fold_snoc_concat
        column_stack_full cylinder_vertices_def cylinder_faces_def ring_vertex_def comp_def)


lemma cone_closed:
  assumes "0 \<le> segments"
  shows "create_cone_mesh center radius height segments =
    Inr (cone_vertices center radius height segments, cone_faces segments)"
  using assms
  by (cases center)
     (simp add: create_cone_mesh_def linspace_def Let_def fold_snoc_concat
        column_stack_full cone_vertices_def cone_faces_def ring_vertex_def comp_def)


lemma fold_skip: "fold (\<lambda>i s. s) xs acc = acc"
  by (induction xs) simp_all

lemma concat_map_Nil: "concat (map (\<lambda>i. []) xs) = []"
  by (induction xs) simp_all

lemma torus_closed:
  "create_torus_mesh center major_radius minor_radius major_segments minor_segments =
    Inr (torus_vertices center major_radius minor_radius major_segments minor_segments,
         torus_faces major_segments minor_segments)"
proof (cases center)
  case (fields c0 c1 c2)
  show ?thesis
  proof (cases "0 < major_segments")
    case False
    then show ?thesis
      by (simp add: create_torus_mesh_def fields py_range_empty torus_vertices_def
            torus_faces_def)
  next
    case major: True
    show ?thesis
    proof (cases "0 < minor_segments")
      case False
      then show ?thesis using major
        by (simp add: create_torus_mesh_def fields py_range_empty [of minor_segments]
              true_div_nonzero for_loop_pure torus_vertices_def torus_faces_def
              fold_skip id_def concat_map_Nil)
    next
      case True
      then show ?thesis using major
        by (simp add: create_torus_mesh_def fields true_div_nonzero for_loop_pure Let_def
              torus_vertices_def torus_faces_def torus_vertex_def fold_snoc_concat)
    qed
  qed
qed

lemma sphere_closed:
  assumes "segments \<noteq> 0"
  shows "create_sphere_mesh center radius segments =
    Inr (sphere_vertices center radius segments, sphere_faces segments)"
  using assms
  by (cases center)
     (simp add: create_sphere_mesh_def true_div_nonzero Let_def for_loop_pure fold_snoc_concat
        sphere_vertices_def sphere_vertex_def sphere_faces_def)


section \<open>Vertex counts of the closed forms\<close>

lemma length_grid: "length (concat (map (\<lambda>i. map (f i) ys) xs)) = length xs * length ys"
  by (induction xs) simp_all

lemma length_cylinder_vertices:
  "0 \<le> segments \<Longrightarrow>
   int (length (cylinder_vertices center radius height segments)) = 2 * segments + 2"
  by (cases center) (simp add: cylinder_vertices_def length_py_range)

lemma length_cone_vertices:
  "0 \<le> segments \<Longrightarrow>
   int (length (cone_vertices center radius height segments)) = segments + 2"
  by (cases center) (simp add: cone_vertices_def length_py_range)

lemma length_sphere_vertices:
  "0 \<le> segments \<Longrightarrow>
   int (length (sphere_vertices center radius segments)) = (segments + 1) * (segments + 1)"
  by (simp add: sphere_vertices_def length_grid length_py_range)

lemma length_torus_vertices:
  "0 \<le> major_segments \<Longrightarrow> 0 \<le> minor_segments \<Longrightarrow>
   int (length (torus_vertices center major_radius minor_radius major_segments minor_segments))
     = major_segments * minor_segments"
  by (simp add: torus_vertices_def length_grid length_py_range)

section \<open>Face indices of the closed forms\<close>

lemma wrap_less: "0 < (s :: int) \<Longrightarrow> s \<le> n \<Longrightarrow> (i + 1) mod s < n"
  using pos_mod_bound [of s "i + 1"] by linarith

lemma cube_faces_in_range: "faces_in_range (create_cube_mesh center size')"
  by (cases center, cases size') (simp add: create_cube_mesh_def faces_in_range_def Let_def)

lemma cylinder_faces_in_range:
  assumes "0 < segments"
  shows "faces_in_range (cylinder_vertices center radius height segments, cylinder_faces segments)"
proof -
  have len: "int (length (cylinder_vertices center radius height segments)) = 2 * segments + 2"
    using assms by (simp add: length_cylinder_vertices)
  show ?thesis
    using assms unfolding faces_in_range_def
    by (auto simp add: len list_all_iff cylinder_faces_def set_py_range wrap_less)
qed

lemma cone_faces_in_range:
  assumes "0 < segments"
  shows "faces_in_range (cone_vertices center radius height segments, cone_faces segments)"
proof -
  have len: "int (length (cone_vertices center radius height segments)) = segments + 2"
    using assms by (simp add: length_cone_vertices)
  show ?thesis
    using assms unfolding faces_in_range_def
    by (auto simp add: len list_all_iff cone_faces_def set_py_range wrap_less)
qed

lemma grid_index_less:
  assumes "0 \<le> a" "a < rows" "0 \<le> b" "b < cols"
  shows "a * cols + b < rows * (cols :: int)"
proof -
  have "a + 1 \<le> rows" using assms by simp
  then have "(a + 1) * cols \<le> rows * cols"
    using assms by (intro mult_right_mono) auto
  then show ?thesis using assms by (simp add: algebra_simps)
qed

lemma grid_index_nonneg: "0 \<le> a \<Longrightarrow> 0 \<le> b \<Longrightarrow> 0 \<le> cols \<Longrightarrow> 0 \<le> a * cols + (b :: int)"
  by simp

lemma torus_faces_in_range:
  assumes "0 < major_segments" "0 < minor_segments"
  shows "faces_in_range (torus_vertices center major_radius minor_radius major_segments minor_segments,
           torus_faces major_segments minor_segments)"
proof -
  have len: "int (length (torus_vertices center major_radius minor_radius
                 major_segments minor_segments)) = major_segments * minor_segments"
    using assms by (simp add: length_torus_vertices)
  show ?thesis
    using assms unfolding faces_in_range_def
    by (auto simp add: len list_all_iff torus_faces_def set_py_range
          intro!: grid_index_less grid_index_nonneg)
qed

lemma sphere_faces_in_range:
  assumes "0 < segments"
  shows "faces_in_range (sphere_vertices center radius segments, sphere_faces segments)"
proof -
  have len: "int (length (sphere_vertices center radius segments))
               = (segments + 1) * (segments + 1)"
    using assms by (simp add: length_sphere_vertices)
  have idx: "0 \<le> a * (segments + 1) + b \<and> a * (segments + 1) + b < (segments + 1) * (segments + 1)"
    if "0 \<le> a" "a \<le> segments" "0 \<le> b" "b \<le> segments" for a b
    using that assms grid_index_less [of a "segments + 1" b "segments + 1"] by simp
  have cell: "0 \<le> i \<Longrightarrow> i < segments \<Longrightarrow> 0 \<le> j \<Longrightarrow> j < segments \<Longrightarrow>
      0 \<le> i * (segments + 1) + j \<and> i * (segments + 1) + j < (segments + 1) * (segments + 1)
      \<and> 0 \<le> i * (segments + 1) + j + 1
      \<and> i * (segments + 1) + j + 1 < (segments + 1) * (segments + 1)
      \<and> 0 \<le> (i + 1) * (segments + 1) + j + 1
      \<and> (i + 1) * (segments + 1) + j + 1 < (segments + 1) * (segments + 1)
      \<and> 0 \<le> (i + 1) * (segments + 1) + j
      \<and> (i + 1) * (segments + 1) + j < (segments + 1) * (segments + 1)" for i j
    using idx [of i j] idx [of i "j + 1"] idx [of "i + 1" "j + 1"] idx [of "i + 1" j]
    by (simp add: add.assoc)
  show ?thesis
    unfolding faces_in_range_def
    using cell by (simp add: len list_all_iff sphere_faces_def set_py_range)
qed

lemma length_concat_pairs: "length (concat (map (\<lambda>i. [f i, g i]) xs)) = 2 * length xs"
  by (induction xs) simp_all

lemma length_grid_pairs:
  "length (concat (map (\<lambda>i. concat (map (\<lambda>j. [f i j, g i j]) ys)) xs))
     = 2 * (length xs * length ys)"
  by (induction xs) (simp_all add: length_concat_pairs)

lemma length_cylinder_faces: "length (cylinder_faces segments) = 4 * nat segments"
  by (simp add: cylinder_faces_def length_py_range length_concat_pairs)

lemma length_cone_faces: "length (cone_faces segments) = 2 * nat segments"
  by (simp add: cone_faces_def length_py_range)

lemma length_sphere_faces: "length (sphere_faces segments) = 2 * (nat segments * nat segments)"
  by (simp add: sphere_faces_def length_py_range length_grid_pairs)

lemma length_torus_faces:
  "length (torus_faces major_segments minor_segments)
     = 2 * (nat major_segments * nat minor_segments)"
  by (simp add: torus_faces_def length_py_range length_grid_pairs)

section \<open>Moving the center\<close>





section \<open>Rotations, vertex by vertex\<close>


lemma deg2rad_90: "deg2rad 90 = pi / 2"
  by (simp add: deg2rad_def)





lemma rotate_z_vertex:
  "rotate_z vertices a =
     map (\<lambda>(x, y, z). (x * cos (deg2rad a) - y * sin (deg2rad a),
                        x * sin (deg2rad a) + y * cos (deg2rad a), z)) vertices"
  by (simp add: rotate_z_def matmul_def transpose3_def Let_def)

section \<open>Rounding to binary64\<close>











section \<open>The traversal\<close>

lemma build_scene_unfold:
  "build_scene valid_color n =
     (case lookup ''type'' (node_type n) of
        Inl e \<Rightarrow> ([], Inl e)
      | Inr t \<Rightarrow>
        if t = ''primitive'' then build_primitive valid_color n
        else if t = ''group'' then
          (case children n of
             None \<Rightarrow> ([], Inl (KeyError ''children''))
           | Some cs \<Rightarrow> build_children valid_color cs [])
        else ([], Inr []))"
  by (cases n) (simp split: sum.splits)

lemma apply_transformations_out:
  "apply_transformations ts vertices out =
     (out @ fst (apply_transformations ts vertices []),
      snd (apply_transformations ts vertices []))"
proof (induction ts arbitrary: vertices out)
  case Nil
  show ?case by simp
next
  case (Cons t ts)
  show ?case
  proof (cases "apply_transformation t vertices")
    case (Inl e)
    then show ?thesis by simp
  next
    case (Inr r)
    obtain vertices' printed where r: "r = (vertices', printed)" by (cases r)
    show ?thesis
      using Cons.IH [of vertices' "out @ printed"] Cons.IH [of vertices' printed]
      by (simp add: Inr r)
  qed
qed

lemma apply_transformations_append:
  "apply_transformations (ts @ us) vertices out =
     (case apply_transformations ts vertices out of
        (out', Inl e) \<Rightarrow> (out', Inl e)
      | (out', Inr vertices') \<Rightarrow> apply_transformations us vertices' out')"
  by (induction ts arbitrary: vertices out) (simp_all split: sum.splits prod.splits)

lemma unknown_transformation_step:
  assumes "t_type t = Some type'"
    and "type' \<notin> {''translate'', ''rotate_x'', ''rotate_y'', ''rotate_z'', ''scale''}"
    and "t_params t = Some params"
  shows "apply_transformation t vertices
           = Inr (vertices, [''Warning: Unknown transformation type: '' @ type'])"
  using assms by (simp add: apply_transformation_def lookup_def)

lemma build_children_traces:
  "build_children valid_color cs traces =
     (fst (build_children valid_color cs []),
      map_sum id (\<lambda>ms. traces @ ms) (snd (build_children valid_color cs [])))"
proof (induction cs arbitrary: traces)
  case Nil
  show ?case by simp
next
  case (Cons c cs)
  obtain out r where c: "build_scene valid_color c = (out, r)" by (cases "build_scene valid_color c")
  show ?case
  proof (cases r)
    case (Inl e)
    then show ?thesis by (simp add: c)
  next
    case (Inr ms)
    show ?thesis
      using Cons.IH [of "traces @ ms"] Cons.IH [of ms]
      by (cases "snd (build_children valid_color cs [])") (simp_all add: c Inr split: prod.splits)
  qed
qed

lemma build_children_all_built:
  assumes "\<And>c. c \<in> set cs \<Longrightarrow> \<exists>ms. snd (build_scene valid_color c) = Inr ms"
  shows "build_children valid_color cs [] =
           (concat (map (\<lambda>c. fst (build_scene valid_color c)) cs),
            Inr (concat (map (\<lambda>c. projr (snd (build_scene valid_color c))) cs)))"
  using assms
proof (induction cs)
  case Nil
  show ?case by simp
next
  case (Cons c cs)
  obtain out ms where c: "build_scene valid_color c = (out, Inr ms)"
    using Cons.prems [of c] by (cases "build_scene valid_color c") auto
  have rest: "build_children valid_color cs [] =
           (concat (map (\<lambda>c. fst (build_scene valid_color c)) cs),
            Inr (concat (map (\<lambda>c. projr (snd (build_scene valid_color c))) cs)))"
    using Cons by simp
  show ?case
    using build_children_traces [of valid_color cs "ms"] by (simp add: c rest)
qed

lemma build_children_first_failure:
  assumes "\<And>c. c \<in> set before \<Longrightarrow> \<exists>ms. snd (build_scene valid_color c) = Inr ms"
    and "snd (build_scene valid_color c) = Inl e"
  shows "build_children valid_color (before @ c # after) [] =
           (concat (map (\<lambda>c. fst (build_scene valid_color c)) (before @ [c])), Inl e)"
  using assms(1)
proof (induction before)
  case Nil
  show ?case using assms(2) by (cases "build_scene valid_color c") simp
next
  case (Cons b before)
  obtain out ms where b: "build_scene valid_color b = (out, Inr ms)"
    using Cons.prems [of b] by (cases "build_scene valid_color b") auto
  have rest: "build_children valid_color (before @ c # after) [] =
           (concat (map (\<lambda>c. fst (build_scene valid_color c)) (before @ [c])), Inl e)"
    using Cons by simp
  show ?case
    using build_children_traces [of valid_color "before @ c # after" "ms"] by (simp add: b rest)
qed

lemma build_primitive_built:
  assumes "snd (build_primitive valid_color n) = Inr ms"
  shows "\<exists>m. ms = [m] \<and> color n = Some (mesh_color m)"
  using assms
  by (auto simp add: build_primitive_def lookup_def mesh3d_trace_def mesh3d_arguments_def
        Let_def split: option.splits sum.splits prod.splits if_splits)

section \<open>Building the rocket\<close>

lemma build_body:
  "build_scene rocket_color body =
     ([], Inr [mesh3d_arguments (translate (cylinder_vertices (0, 0, 0) 1 6 20) 0 0 3)
                 (cylinder_faces 20) ''silver''])"
  by (simp add: body_def build_primitive_def primitive_mesh_def lookup_def cylinder_closed
        apply_transformation_def mesh3d_trace_def rocket_color_def)

lemma build_nose_cone:
  "build_scene rocket_color nose_cone =
     ([], Inr [mesh3d_arguments (translate (cone_vertices (0, 0, 0) 1 3 20) 0 0 6)
                 (cone_faces 20) ''red''])"
  by (simp add: nose_cone_def build_primitive_def primitive_mesh_def lookup_def cone_closed
        apply_transformation_def mesh3d_trace_def rocket_color_def)

lemma build_pyramid:
  "build_scene rocket_color pyramid =
     ([], Inl (ValueError ''Unknown primitive shape: pyramid''))"
  by (simp add: pyramid_def build_primitive_def primitive_mesh_def lookup_def)

lemma rocket_children_build:
  "build_scene rocket_color fin_1 =
     ([], Inr [mesh3d_arguments
        (rotate_x (rotate_z (translate (fst (create_cube_mesh (0, 0, 0) (0.2, 2.5, 2.0)))
           0 (- 1.0) 1.0) 0) 10)
        (snd (create_cube_mesh (0, 0, 0) (0.2, 2.5, 2.0))) ''blue''])"
  "build_scene rocket_color fin_2 =
     ([], Inr [mesh3d_arguments
        (rotate_x (rotate_z (translate (fst (create_cube_mesh (0, 0, 0) (0.2, 2.5, 2.0)))
           0 (- 1.0) 1.0) 120) 10)
        (snd (create_cube_mesh (0, 0, 0) (0.2, 2.5, 2.0))) ''blue''])"
  "build_scene rocket_color fin_3 =
     ([], Inr [mesh3d_arguments
        (rotate_x (rotate_z (translate (fst (create_cube_mesh (0, 0, 0) (0.2, 2.5, 2.0)))
           0 (- 1.0) 1.0) 240) 10)
        (snd (create_cube_mesh (0, 0, 0) (0.2, 2.5, 2.0))) ''blue''])"
  "build_scene rocket_color window_1 =
     ([], Inr [mesh3d_arguments (translate (sphere_vertices (0, 0, 0) 0.3 20) 0.8 0 5.0)
        (sphere_faces 20) ''lightblue''])"
  "build_scene rocket_color window_2 =
     ([], Inr [mesh3d_arguments
        (rotate_z (translate (sphere_vertices (0, 0, 0) 0.3 20)
           (0.8 * cos (deg2rad 90)) (0.8 * sin (deg2rad 90)) 4.0) 90)
        (sphere_faces 20) ''lightblue''])"
  "build_scene rocket_color window_3 =
     ([], Inr [mesh3d_arguments
        (rotate_z (translate (sphere_vertices (0, 0, 0) 0.3 20)
           (0.8 * cos (deg2rad 180)) (0.8 * sin (deg2rad 180)) 5.0) 180)
        (sphere_faces 20) ''lightblue''])"
  "build_scene rocket_color exhaust =
     ([], Inr [mesh3d_arguments (translate (cylinder_vertices (0, 0, 0) 0.7 1.0 20) 0 0 (- 0.5))
        (cylinder_faces 20) ''darkgrey''])"
  "build_scene rocket_color nozzle_1 =
     ([], Inr [mesh3d_arguments
        (rotate_x (translate (cone_vertices (0, 0, 0) 0.3 0.8 20) 0.3 0.3 (- 0.9)) 180)
        (cone_faces 20) ''orange''])"
  "build_scene rocket_color nozzle_2 =
     ([], Inr [mesh3d_arguments
        (rotate_x (translate (cone_vertices (0, 0, 0) 0.3 0.8 20) (- 0.3) (- 0.3) (- 0.9)) 180)
        (cone_faces 20) ''orange''])"
  "build_scene rocket_color ring_top =
     ([], Inr [mesh3d_arguments (translate (torus_vertices (0, 0, 0) 1.1 0.05 30 15) 0 0 5.5)
        (torus_faces 30 15) ''gold''])"
  "build_scene rocket_color ring_bottom =
     ([], Inr [mesh3d_arguments (translate (torus_vertices (0, 0, 0) 1.1 0.05 30 15) 0 0 1.5)
        (torus_faces 30 15) ''gold''])"
  by (simp_all add: fin_1_def fin_2_def fin_3_def window_1_def window_2_def
        window_3_def exhaust_def nozzle_1_def nozzle_2_def ring_top_def ring_bottom_def
        build_primitive_def primitive_mesh_def lookup_def apply_transformation_def
        cylinder_closed cone_closed sphere_closed torus_closed mesh3d_trace_def
        rocket_color_def split: prod.splits)

lemma rocket_builds:
  "\<exists>traces. build_scene rocket_color rocket = ([], Inr traces)
     \<and> map mesh_color traces =
         [''silver'', ''red'', ''blue'', ''blue'', ''blue'', ''lightblue'', ''lightblue'',
          ''lightblue'', ''darkgrey'', ''orange'', ''orange'', ''gold'', ''gold'']"
proof -
  have "build_scene rocket_color rocket =
          build_children rocket_color [body, nose_cone, fin_1, fin_2, fin_3, window_1,
            window_2, window_3, exhaust, nozzle_1, nozzle_2, ring_top, ring_bottom] []"
    by (simp add: rocket_def group_node_def lookup_def)
  also have "\<dots> =
      (concat (map (\<lambda>c. fst (build_scene rocket_color c)) [body, nose_cone, fin_1, fin_2,
          fin_3, window_1, window_2, window_3, exhaust, nozzle_1, nozzle_2, ring_top,
          ring_bottom]),
       Inr (concat (map (\<lambda>c. projr (snd (build_scene rocket_color c))) [body, nose_cone,
          fin_1, fin_2, fin_3, window_1, window_2, window_3, exhaust, nozzle_1, nozzle_2,
          ring_top, ring_bottom])))"
    by (rule build_children_all_built)
       (auto simp add: build_body build_nose_cone rocket_children_build)
  finally show ?thesis
    by (simp add: build_body build_nose_cone rocket_children_build mesh3d_arguments_def)
qed

section \<open>Vertex counts\<close>

text \<open>
  Claim C1. For positive segment counts and any center, radius and height, the cylinder
  has exactly \<open>2 * segments + 2\<close> vertices, the sphere exactly \<open>(segments + 1)\<^sup>2\<close> and
  the torus exactly \<open>major_segments * minor_segments\<close>; none of the three generators
  raises.
\<close>

theorem vertex_counts:
  assumes "0 < segments" and "0 < major_segments" and "0 < minor_segments"
  shows "(\<exists>vertices faces.
            create_cylinder_mesh center radius height segments = Inr (vertices, faces)
            \<and> int (length vertices) = 2 * segments + 2)
       \<and> (\<exists>vertices faces.
            create_sphere_mesh center radius segments = Inr (vertices, faces)
            \<and> int (length vertices) = (segments + 1) ^ 2)
       \<and> (\<exists>vertices faces.
            create_torus_mesh center major_radius minor_radius major_segments minor_segments
              = Inr (vertices, faces)
            \<and> int (length vertices) = major_segments * minor_segments)"
  using assms
  by (simp add: cylinder_closed sphere_closed torus_closed length_cylinder_vertices
        length_sphere_vertices length_torus_vertices power2_eq_square)

theorem vertex_counts_witness:
  "(0 :: int) < 20 \<and> (0 :: int) < 30 \<and> (0 :: int) < 15
   \<and> (\<exists>vertices faces.
      create_cylinder_mesh (0, 0, 0) (3 / 10) 6 20 = Inr (vertices, faces)
      \<and> length vertices = 42)
   \<and> (\<exists>vertices faces.
      create_sphere_mesh (0, 0, 0) (3 / 10) 20 = Inr (vertices, faces)
      \<and> length vertices = 441)
   \<and> (\<exists>vertices faces.
      create_torus_mesh (0, 0, 0) (11 / 10) (5 / 100) 30 15 = Inr (vertices, faces)
      \<and> length vertices = 450)"
  using vertex_counts [where segments = 20 and major_segments = 30 and minor_segments = 15
      and center = "(0, 0, 0)" and radius = "3 / 10" and height = 6
      and major_radius = "11 / 10" and minor_radius = "5 / 100"]
  by auto

section \<open>The cube scenario\<close>

text \<open>
  Claim C9. \<open>create_cube_mesh\<close> with center \<open>[0, 0, 0]\<close> and size \<open>[2, 2, 2]\<close> returns
  exactly 8 vertices, pairwise different, whose coordinates are the 8 combinations of
  1 and -1 in x, y and z, and exactly 12 faces.
\<close>

theorem cube_scenario:
  "(case create_cube_mesh (0, 0, 0) (2, 2, 2) of (v, faces) \<Rightarrow>
      length v = 8 \<and> distinct v \<and> set v = {- 1, 1} \<times> {- 1, 1} \<times> {- 1, 1}
      \<and> length faces = 12)"
  by (auto simp add: create_cube_mesh_def Let_def)

section \<open>Face indices\<close>

text \<open>
  Claim C2. For each of the five generators, with positive segment counts, every index
  in the returned face array is at least 0 and less than the number of returned vertices.
\<close>

theorem face_indices_in_range:
  assumes "0 < segments" and "0 < major_segments" and "0 < minor_segments"
  shows "faces_in_range (create_cube_mesh center size')
       \<and> (\<exists>m. create_cylinder_mesh center radius height segments = Inr m \<and> faces_in_range m)
       \<and> (\<exists>m. create_cone_mesh center radius height segments = Inr m \<and> faces_in_range m)
       \<and> (\<exists>m. create_sphere_mesh center radius segments = Inr m \<and> faces_in_range m)
       \<and> (\<exists>m. create_torus_mesh center major_radius minor_radius major_segments minor_segments
                 = Inr m \<and> faces_in_range m)"
  using assms
  by (simp add: cube_faces_in_range cylinder_closed cylinder_faces_in_range cone_closed
        cone_faces_in_range sphere_closed sphere_faces_in_range torus_closed
        torus_faces_in_range)

theorem face_indices_in_range_witness:
  "(0 :: int) < 4 \<and> (0 :: int) < 3 \<and> (0 :: int) < 2
   \<and> faces_in_range (create_cube_mesh (0, 0, 0) (2, 2, 2))
   \<and> length (snd (create_cube_mesh (0, 0, 0) (2, 2, 2))) = 12
   \<and> (\<exists>m. create_cylinder_mesh (0, 0, 0) 1 1 4 = Inr m \<and> faces_in_range m
          \<and> length (snd m) = 16)
   \<and> (\<exists>m. create_cone_mesh (0, 0, 0) 1 1 4 = Inr m \<and> faces_in_range m
          \<and> length (fst m) = 6 \<and> length (snd m) = 8)
   \<and> (\<exists>m. create_sphere_mesh (0, 0, 0) 1 4 = Inr m \<and> faces_in_range m
          \<and> length (snd m) = 32)
   \<and> (\<exists>m. create_torus_mesh (0, 0, 0) 1 (1 / 5) 3 2 = Inr m \<and> faces_in_range m
          \<and> length (snd m) = 12)"
  using face_indices_in_range [where segments = 4 and major_segments = 3
      and minor_segments = 2 and center = "(0, 0, 0)" and size' = "(2, 2, 2)"
      and radius = 1 and height = 1 and major_radius = 1 and minor_radius = "1 / 5"]
  by (simp add: cylinder_closed cone_closed sphere_closed torus_closed length_cylinder_faces
        length_cone_faces length_sphere_faces length_torus_faces cone_vertices_def
        length_py_range create_cube_mesh_def Let_def)

section \<open>The center translates the mesh\<close>



section \<open>Rotations\<close>


text \<open>
  Claim C7. There is a point on which translating by (1, 0, 0) and then rotating by 90
  degrees about the z axis differs from rotating first and translating second, both for
  the two functions composed by hand and for the loop of \<open>build_scene\<close> run on the two
  lists of transformations.
\<close>

theorem transform_order_matters:
  "\<exists>p. rotate_z (translate [p] 1 0 0) 90 \<noteq> translate (rotate_z [p] 90) 1 0 0
       \<and> snd (apply_transformations
                [\<lparr>t_type = Some ''translate'', t_params = Some [1, 0, 0]\<rparr>,
                 \<lparr>t_type = Some ''rotate_z'', t_params = Some [90]\<rparr>] [p] [])
         \<noteq> snd (apply_transformations
                [\<lparr>t_type = Some ''rotate_z'', t_params = Some [90]\<rparr>,
                 \<lparr>t_type = Some ''translate'', t_params = Some [1, 0, 0]\<rparr>] [p] [])"
proof (intro exI [of _ "(0, 0, 0)"] conjI)
  have l: "rotate_z (translate [(0, 0, 0)] 1 0 0) 90 = [(0, 1, 0)]"
    by (simp add: rotate_z_vertex translate_def deg2rad_90)
  have r: "translate (rotate_z [(0, 0, 0)] 90) 1 0 0 = [(1, 0, 0)]"
    by (simp add: rotate_z_vertex translate_def deg2rad_90)
  show "rotate_z (translate [(0, 0, 0)] 1 0 0) 90 \<noteq> translate (rotate_z [(0, 0, 0)] 90) 1 0 0"
    by (simp add: l r)
  show "snd (apply_transformations
                [\<lparr>t_type = Some ''translate'', t_params = Some [1, 0, 0]\<rparr>,
                 \<lparr>t_type = Some ''rotate_z'', t_params = Some [90]\<rparr>] [(0, 0, 0)] [])
         \<noteq> snd (apply_transformations
                [\<lparr>t_type = Some ''rotate_z'', t_params = Some [90]\<rparr>,
                 \<lparr>t_type = Some ''translate'', t_params = Some [1, 0, 0]\<rparr>] [(0, 0, 0)] [])"
    by (simp add: apply_transformation_def lookup_def l r)
qed

section \<open>Errors and warnings of the traversal\<close>

text \<open>
  Claim C3. For every primitive node whose shape is none of cube, cylinder, cone, sphere
  and torus, \<open>build_scene\<close> raises an error before anything is printed and returns no
  list of traces: ValueError naming the shape, or KeyError when the node has no color,
  which is read before the shape is looked at.
\<close>

theorem unknown_shape_is_fatal:
  assumes "node_type n = Some ''primitive''"
    and "shape n = Some s"
    and "s \<notin> {''cube'', ''cylinder'', ''cone'', ''sphere'', ''torus''}"
  shows "build_scene valid_color n =
           ([], Inl (case color n of
                       None \<Rightarrow> KeyError ''color''
                     | Some c \<Rightarrow> ValueError (''Unknown primitive shape: '' @ s)))"
  using assms
  by (simp add: build_scene_unfold build_primitive_def primitive_mesh_def lookup_def
        split: option.splits)

theorem unknown_shape_is_fatal_witness:
  "node_type pyramid = Some ''primitive'' \<and> shape pyramid = Some ''pyramid''
   \<and> ''pyramid'' \<notin> {''cube'', ''cylinder'', ''cone'', ''sphere'', ''torus''}
   \<and> build_scene rocket_color pyramid
       = ([], Inl (ValueError ''Unknown primitive shape: pyramid''))"
  using unknown_shape_is_fatal
    [where n = pyramid and s = "''pyramid''" and valid_color = rocket_color]
  by (simp add: pyramid_def)

text \<open>
  Claim C4, as the code has it. The loop reads the keys \<open>type\<close> and \<open>params\<close> of every
  entry before it looks at the type, so an entry of an unknown type is skipped only when
  it has the key \<open>params\<close>. In a primitive node of a recognized shape, let the loop over
  the transformations reach an entry that has the key \<open>params\<close> and whose type is none
  of translate, rotate_x, rotate_y, rotate_z and scale: the entries before it applied
  without error, giving the vertices \<open>vertices1\<close>. The step for the entry prints one
  warning naming the type and returns \<open>vertices1\<close> unchanged, and \<open>build_scene\<close> goes on
  with the entries after it from \<open>vertices1\<close>: its output is that of the entries before
  and after with the warning between them, and its result is the error of an entry after
  it or what \<open>go.Mesh3d\<close> gives for the final vertices.
\<close>

theorem unknown_transformation_is_skipped:
  assumes "t_type t = Some type'"
    and "type' \<notin> {''translate'', ''rotate_x'', ''rotate_y'', ''rotate_z'', ''scale''}"
    and "t_params t = Some params"
    and "node_type n = Some ''primitive''"
    and "shape n = Some s"
    and "color n = Some c"
    and "primitive_mesh n s = Inr (vertices, faces)"
    and "transformations n = Some (before @ t # after)"
    and "apply_transformations before vertices [] = (out1, Inr vertices1)"
    and "apply_transformations after vertices1 [] = (out2, result)"
  shows "apply_transformation t vertices1
           = Inr (vertices1, [''Warning: Unknown transformation type: '' @ type'])
       \<and> build_scene valid_color n
           = (out1 @ [''Warning: Unknown transformation type: '' @ type'] @ out2,
              case result of
                Inl e \<Rightarrow> Inl e
              | Inr vertices2 \<Rightarrow>
                  map_sum id (\<lambda>trace. [trace]) (mesh3d_trace valid_color vertices2 faces c))"
proof -
  let ?w = "''Warning: Unknown transformation type: '' @ type'"
  have step: "apply_transformation t vertices1 = Inr (vertices1, [?w])"
    using assms(1-3) by (rule unknown_transformation_step)
  have "apply_transformations (t # after) vertices1 out1
          = apply_transformations after vertices1 (out1 @ [?w])"
    by (simp add: step)
  also have "\<dots> = (out1 @ [?w] @ out2, result)"
    using apply_transformations_out [of after vertices1 "out1 @ [?w]"] assms(10) by simp
  finally have loop: "apply_transformations (before @ t # after) vertices []
                  = (out1 @ [?w] @ out2, result)"
    by (simp add: apply_transformations_append assms(9))
  have "build_scene valid_color n
           = (out1 @ [?w] @ out2,
              case result of
                Inl e \<Rightarrow> Inl e
              | Inr vertices2 \<Rightarrow>
                  map_sum id (\<lambda>trace. [trace]) (mesh3d_trace valid_color vertices2 faces c))"
  proof (cases result)
    case (Inl e)
    then show ?thesis
      using assms(4-8) loop by (simp add: build_scene_unfold build_primitive_def lookup_def)
  next
    case (Inr vertices2)
    then show ?thesis
      using assms(4-8) loop
      by (cases "mesh3d_trace valid_color vertices2 faces c")
         (simp_all add: build_scene_unfold build_primitive_def lookup_def)
  qed
  with step show ?thesis by simp
qed

theorem unknown_transformation_is_skipped_witness:
  "''wobble'' \<notin> {''translate'', ''rotate_x'', ''rotate_y'', ''rotate_z'', ''scale''}
   \<and> build_scene rocket_color
        (Scene_Node (Some ''fin'') (Some ''primitive'') (Some ''cube'') (Some ''blue'')
           (Some (1, 1, 1)) None None None None
           (Some [\<lparr>t_type = Some ''translate'', t_params = Some [0, - 1, 1]\<rparr>,
                  \<lparr>t_type = Some ''wobble'', t_params = Some [3]\<rparr>,
                  \<lparr>t_type = Some ''scale'', t_params = Some [2, 2, 2]\<rparr>]) None)
     = ([''Warning: Unknown transformation type: wobble''],
        Inr [mesh3d_arguments
               (scale (translate (fst (create_cube_mesh (0, 0, 0) (1, 1, 1))) 0 (- 1) 1) 2 2 2)
               (snd (create_cube_mesh (0, 0, 0) (1, 1, 1))) ''blue''])"
  using unknown_transformation_is_skipped
    [where t = "\<lparr>t_type = Some ''wobble'', t_params = Some [3]\<rparr>"
       and type' = "''wobble''" and params = "[3]" and valid_color = rocket_color
       and n = "Scene_Node (Some ''fin'') (Some ''primitive'') (Some ''cube'') (Some ''blue'')
           (Some (1, 1, 1)) None None None None
           (Some [\<lparr>t_type = Some ''translate'', t_params = Some [0, - 1, 1]\<rparr>,
                  \<lparr>t_type = Some ''wobble'', t_params = Some [3]\<rparr>,
                  \<lparr>t_type = Some ''scale'', t_params = Some [2, 2, 2]\<rparr>]) None"
       and s = "''cube''" and c = "''blue''"
       and vertices = "fst (create_cube_mesh (0, 0, 0) (1, 1, 1))"
       and faces = "snd (create_cube_mesh (0, 0, 0) (1, 1, 1))"
       and before = "[\<lparr>t_type = Some ''translate'', t_params = Some [0, - 1, 1]\<rparr>]"
       and after = "[\<lparr>t_type = Some ''scale'', t_params = Some [2, 2, 2]\<rparr>]"
       and ?out1.0 = "[]"
       and ?vertices1.0 = "translate (fst (create_cube_mesh (0, 0, 0) (1, 1, 1))) 0 (- 1) 1"
       and ?out2.0 = "[]"
       and result = "Inr (scale (translate (fst (create_cube_mesh (0, 0, 0) (1, 1, 1)))
                            0 (- 1) 1) 2 2 2)"]
  by (simp add: primitive_mesh_def lookup_def apply_transformation_def mesh3d_trace_def
        rocket_color_def)

text \<open>
  Claim C4 as it is stated fails on an entry of an unknown type that has no key
  \<open>params\<close>: the step raises KeyError, and \<open>build_scene\<close> on a cube with this one entry
  raises KeyError and has printed no warning.
\<close>

theorem unknown_transformation_without_params_raises:
  "t_type \<lparr>t_type = Some ''wobble'', t_params = None\<rparr> = Some ''wobble''
   \<and> ''wobble'' \<notin> {''translate'', ''rotate_x'', ''rotate_y'', ''rotate_z'', ''scale''}
   \<and> apply_transformation \<lparr>t_type = Some ''wobble'', t_params = None\<rparr>
        (fst (create_cube_mesh (0, 0, 0) (1, 1, 1)))
     = Inl (KeyError ''params'')
   \<and> build_scene rocket_color
        (Scene_Node (Some ''fin'') (Some ''primitive'') (Some ''cube'') (Some ''blue'')
           (Some (1, 1, 1)) None None None None
           (Some [\<lparr>t_type = Some ''wobble'', t_params = None\<rparr>]) None)
     = ([], Inl (KeyError ''params''))"
  by (simp add: apply_transformation_def lookup_def build_primitive_def primitive_mesh_def)

text \<open>
  Claim C10. For every node whose type is neither primitive nor group, \<open>build_scene\<close>
  returns the empty list, raises no error and prints nothing.
\<close>

theorem unknown_node_type_is_empty:
  assumes "node_type n = Some t" and "t \<noteq> ''primitive''" and "t \<noteq> ''group''"
  shows "build_scene valid_color n = ([], Inr [])"
  using assms by (simp add: build_scene_unfold lookup_def)

theorem unknown_node_type_is_empty_witness:
  "''light'' \<noteq> ''primitive'' \<and> ''light'' \<noteq> ''group''
   \<and> build_scene rocket_color
        (Scene_Node (Some ''lamp'') (Some ''light'') (Some ''pyramid'') None
           None None None None None None None)
     = ([], Inr [])"
  using unknown_node_type_is_empty
    [where n = "Scene_Node (Some ''lamp'') (Some ''light'') (Some ''pyramid'') None
           None None None None None None None" and t = "''light''"
       and valid_color = rocket_color]
  by simp

section \<open>Groups\<close>

text \<open>
  Claim C8. For every group node, \<open>build_scene\<close> returns the concatenation, in the
  declared order, of the lists that \<open>build_scene\<close> returns for the children, and prints
  what they print. A child that raises ends the traversal with its error, after the
  output of the children before it and its own. In particular a group of exactly two
  primitive children that both build returns exactly two traces, the first with the
  color of the first child and the second with the color of the second.
\<close>

theorem group_concatenates_children:
  assumes "node_type n = Some ''group''" and "children n = Some cs"
  shows "((\<forall>c \<in> set cs. \<exists>ms. snd (build_scene valid_color c) = Inr ms) \<longrightarrow>
            build_scene valid_color n =
              (concat (map (\<lambda>c. fst (build_scene valid_color c)) cs),
               Inr (concat (map (\<lambda>c. projr (snd (build_scene valid_color c))) cs))))
       \<and> (\<forall>before c after e.
            cs = before @ c # after
            \<and> (\<forall>b \<in> set before. \<exists>ms. snd (build_scene valid_color b) = Inr ms)
            \<and> snd (build_scene valid_color c) = Inl e \<longrightarrow>
            build_scene valid_color n =
              (concat (map (\<lambda>c. fst (build_scene valid_color c)) (before @ [c])), Inl e))
       \<and> (\<forall>c1 c2 ms1 ms2.
            cs = [c1, c2]
            \<and> node_type c1 = Some ''primitive'' \<and> node_type c2 = Some ''primitive''
            \<and> snd (build_scene valid_color c1) = Inr ms1
            \<and> snd (build_scene valid_color c2) = Inr ms2 \<longrightarrow>
            (\<exists>m1 m2. snd (build_scene valid_color n) = Inr [m1, m2]
               \<and> color c1 = Some (mesh_color m1) \<and> color c2 = Some (mesh_color m2)))"
proof (intro conjI allI impI)
  have group: "build_scene valid_color n = build_children valid_color cs []"
    using assms by (simp add: build_scene_unfold lookup_def)
  {
    assume "\<forall>c \<in> set cs. \<exists>ms. snd (build_scene valid_color c) = Inr ms"
    then show "build_scene valid_color n =
              (concat (map (\<lambda>c. fst (build_scene valid_color c)) cs),
               Inr (concat (map (\<lambda>c. projr (snd (build_scene valid_color c))) cs)))"
      unfolding group by (intro build_children_all_built) blast
  }
  {
    fix before c after e
    assume h: "cs = before @ c # after
            \<and> (\<forall>b \<in> set before. \<exists>ms. snd (build_scene valid_color b) = Inr ms)
            \<and> snd (build_scene valid_color c) = Inl e"
    then have "build_children valid_color (before @ c # after) [] =
           (concat (map (\<lambda>c. fst (build_scene valid_color c)) (before @ [c])), Inl e)"
      by (intro build_children_first_failure) blast+
    then show "build_scene valid_color n =
              (concat (map (\<lambda>c. fst (build_scene valid_color c)) (before @ [c])), Inl e)"
      using h by (simp add: group)
  }
  {
    fix c1 c2 ms1 ms2
    assume h: "cs = [c1, c2]
            \<and> node_type c1 = Some ''primitive'' \<and> node_type c2 = Some ''primitive''
            \<and> snd (build_scene valid_color c1) = Inr ms1
            \<and> snd (build_scene valid_color c2) = Inr ms2"
    have p1: "build_scene valid_color c1 = build_primitive valid_color c1"
      and p2: "build_scene valid_color c2 = build_primitive valid_color c2"
      using h by (simp_all add: build_scene_unfold lookup_def)
    obtain m1 where m1: "ms1 = [m1]" "color c1 = Some (mesh_color m1)"
      using build_primitive_built [of valid_color c1 ms1] h p1 by auto
    obtain m2 where m2: "ms2 = [m2]" "color c2 = Some (mesh_color m2)"
      using build_primitive_built [of valid_color c2 ms2] h p2 by auto
    have "build_children valid_color cs [] =
           (concat (map (\<lambda>c. fst (build_scene valid_color c)) cs),
            Inr (concat (map (\<lambda>c. projr (snd (build_scene valid_color c))) cs)))"
      using h by (intro build_children_all_built) auto
    then have "snd (build_scene valid_color n) = Inr [m1, m2]"
      using h m1 m2 by (simp add: group)
    then show "\<exists>m1 m2. snd (build_scene valid_color n) = Inr [m1, m2]
               \<and> color c1 = Some (mesh_color m1) \<and> color c2 = Some (mesh_color m2)"
      using m1 m2 by blast
  }
qed

theorem group_concatenates_children_witness:
  "build_scene rocket_color (group_node [body, nose_cone]) =
     ([], Inr [mesh3d_arguments (translate (cylinder_vertices (0, 0, 0) 1 6 20) 0 0 3)
                 (cylinder_faces 20) ''silver'',
               mesh3d_arguments (translate (cone_vertices (0, 0, 0) 1 3 20) 0 0 6)
                 (cone_faces 20) ''red''])
   \<and> (\<exists>m1 m2. snd (build_scene rocket_color (group_node [body, nose_cone])) = Inr [m1, m2]
         \<and> mesh_color m1 = ''silver'' \<and> mesh_color m2 = ''red'')
   \<and> build_scene rocket_color (group_node [body, pyramid, nose_cone]) =
       ([], Inl (ValueError ''Unknown primitive shape: pyramid''))"
proof -
  have g: "node_type (group_node cs) = Some ''group''" "children (group_node cs) = Some cs"
    for cs
    by (simp_all add: group_node_def)
  have fields: "node_type body = Some ''primitive''" "node_type nose_cone = Some ''primitive''"
    "color body = Some ''silver''" "color nose_cone = Some ''red''"
    by (simp_all add: body_def nose_cone_def)
  note built = group_concatenates_children
    [OF g, where cs = "[body, nose_cone]" and valid_color = rocket_color]
  note failed = group_concatenates_children
    [OF g, where cs = "[body, pyramid, nose_cone]" and valid_color = rocket_color]
  have all: "build_scene rocket_color (group_node [body, nose_cone]) =
     ([], Inr [mesh3d_arguments (translate (cylinder_vertices (0, 0, 0) 1 6 20) 0 0 3)
                 (cylinder_faces 20) ''silver'',
               mesh3d_arguments (translate (cone_vertices (0, 0, 0) 1 3 20) 0 0 6)
                 (cone_faces 20) ''red''])"
    using built [THEN conjunct1] by (simp add: build_body build_nose_cone)
  have "\<exists>m1 m2. snd (build_scene rocket_color (group_node [body, nose_cone])) = Inr [m1, m2]
         \<and> color body = Some (mesh_color m1) \<and> color nose_cone = Some (mesh_color m2)"
    using built [THEN conjunct2, THEN conjunct2, rule_format, of body nose_cone]
    by (simp add: fields build_body build_nose_cone)
  then have two:
    "\<exists>m1 m2. snd (build_scene rocket_color (group_node [body, nose_cone])) = Inr [m1, m2]
         \<and> mesh_color m1 = ''silver'' \<and> mesh_color m2 = ''red''"
    by (auto simp add: fields)
  have broken: "build_scene rocket_color (group_node [body, pyramid, nose_cone]) =
       ([], Inl (ValueError ''Unknown primitive shape: pyramid''))"
    using failed [THEN conjunct2, THEN conjunct1, rule_format,
        of "[body]" pyramid "[nose_cone]" "ValueError ''Unknown primitive shape: pyramid''"]
    by (simp add: build_body build_pyramid)
  from all two broken show ?thesis by blast
qed

end
